theory Spec2Isabelle
  imports Complex_Main
begin

section \<open>The language monitor bot: data model\<close>

text \<open>
  The development embeds the three services of the bot (\<^verbatim>\<open>isEnglish\<close> and
  \<^verbatim>\<open>translateText\<close> of \<^verbatim>\<open>services/language.ts\<close>, \<^verbatim>\<open>analyzeImage\<close> of
  \<^verbatim>\<open>services/image.ts\<close>) and the \<^verbatim>\<open>channel_post\<close> handler of \<^verbatim>\<open>index.ts\<close>.

  Everything outside the repository is an oracle held in the record \<open>env\<close>: the local
  detector \<^verbatim>\<open>langdetect.detect\<close>, the OpenAI client, the Telegram API and the
  JavaScript built-ins \<^verbatim>\<open>JSON.parse\<close>, \<^verbatim>\<open>String.prototype.trim\<close>,
  \<^verbatim>\<open>String.prototype.toLowerCase\<close> and the string conversion of a template literal.
  Every call that leaves the process is appended to a trace of events, and the answer of
  an oracle may depend on the whole trace before the call, so a service may answer the
  same request differently at different times. A thrown JavaScript value is a
  \<open>js_error\<close>, and a function that can throw returns \<open>js_error + 'a\<close>.
  Calls of \<^verbatim>\<open>console.log\<close> and \<^verbatim>\<open>console.error\<close> are left out.
\<close>

datatype js_error = Error string | TypeError string | SyntaxError string

text \<open>A value produced by \<^verbatim>\<open>JSON.parse\<close>. An object is the list of its own properties,
  each key once.\<close>

datatype json =
    JNull
  | JBool bool
  | JNum real
  | JStr string
  | JArr "json list"
  | JObj "(string \<times> json) list"

text \<open>\<^verbatim>\<open>LanguageDetection\<close> of \<^verbatim>\<open>types/langdetect.d.ts\<close>.\<close>

record detection =
  lang :: string
  prob :: real

text \<open>The parameter of \<^verbatim>\<open>openaiClient.chat.completions.create\<close>.\<close>

datatype content_part = TextPart string | ImageUrlPart string

datatype message_content = Text string | Parts "content_part list"

record request =
  model :: string
  messages :: "(string \<times> message_content) list"
  max_tokens :: nat
  response_format :: "string option"

text \<open>What the client resolves to: \<^verbatim>\<open>response.choices[i].message.content\<close> is a string or null.\<close>

record completion_message =
  content :: "string option"

record choice =
  message :: completion_message

record response =
  choices :: "choice list"

text \<open>The result of \<^verbatim>\<open>analyzeImage\<close>, \<^verbatim>\<open>{ text, isEnglish }\<close>. The declared type of
  \<^verbatim>\<open>text\<close> is \<^verbatim>\<open>string\<close>, but the value comes from a parsed reply of type \<^verbatim>\<open>any\<close>,
  so the field holds whatever JSON value the reply carries.\<close>

record analysis =
  a_text :: json
  a_isEnglish :: bool

text \<open>The channel post the handler reads: \<^verbatim>\<open>message_id\<close>, \<^verbatim>\<open>chat.id\<close>, \<^verbatim>\<open>text\<close>
  and \<^verbatim>\<open>photo\<close>; an absent field is \<open>None\<close>.\<close>

record photo_size =
  file_id :: string

record post =
  message_id :: int
  chat_id :: int
  post_text :: "string option"
  post_photo :: "photo_size list option"

datatype event =
    Detect string
  | Create request
  | GetFile string
  | SendMessage int string int

record env =
  detect :: "event list \<Rightarrow> string \<Rightarrow> js_error + detection list option"
  create :: "event list \<Rightarrow> request \<Rightarrow> js_error + response"
  getFile :: "event list \<Rightarrow> string \<Rightarrow> js_error + string option"
  sendMessage :: "event list \<Rightarrow> int \<Rightarrow> string \<Rightarrow> int \<Rightarrow> js_error option"
  JSON_parse :: "string \<Rightarrow> js_error + json"
  trim :: "string \<Rightarrow> string"
  toLowerCase :: "string \<Rightarrow> string"
  toString :: "json \<Rightarrow> string"
  TELEGRAM_BOT_TOKEN :: string

section \<open>JavaScript operators used by the services\<close>

text \<open>\<^verbatim>\<open>s.includes(t)\<close>: \<open>t\<close> occurs in \<open>s\<close> as a contiguous run of code units.\<close>

fun includes_str :: "string \<Rightarrow> string \<Rightarrow> bool" where
  "includes_str [] t = (t = [])"
| "includes_str (c # s) t = (take (length t) (c # s) = t \<or> includes_str s t)"

text \<open>\<^verbatim>\<open>x || d\<close> where \<open>x\<close> is a string or undefined: the empty string is falsy too.\<close>

definition or_default :: "string option \<Rightarrow> string \<Rightarrow> string" where
  "or_default x d = (case x of None \<Rightarrow> d | Some s \<Rightarrow> if s = [] then d else s)"

text \<open>\<^verbatim>\<open>response.choices[0].message.content\<close>: reading \<^verbatim>\<open>.message\<close> of the undefined
  first element of an empty array throws a TypeError.\<close>

definition first_content :: "response \<Rightarrow> js_error + string option" where
  "first_content r =
     (case choices r of
        [] \<Rightarrow> Inl (TypeError ''Cannot read properties of undefined'')
      | c # _ \<Rightarrow> Inr (content (message c)))"

text \<open>Truthiness of a JSON value (\<^verbatim>\<open>NaN\<close> is not a JSON number).\<close>

fun truthy :: "json \<Rightarrow> bool" where
  "truthy JNull = False"
| "truthy (JBool b) = b"
| "truthy (JNum n) = (n \<noteq> 0)"
| "truthy (JStr s) = (s \<noteq> [])"
| "truthy (JArr xs) = True"
| "truthy (JObj kvs) = True"

text \<open>\<^verbatim>\<open>result.k\<close> for \<^verbatim>\<open>k\<close> one of \<^verbatim>\<open>text\<close>, \<^verbatim>\<open>isEnglish\<close>: reading a property of
  \<^verbatim>\<open>null\<close> throws; an object yields its own property or undefined (\<open>None\<close>); a
  boolean, number, string or array has no property of these names.\<close>

fun get_prop :: "json \<Rightarrow> string \<Rightarrow> js_error + json option" where
  "get_prop JNull k = Inl (TypeError ''Cannot read properties of null'')"
| "get_prop (JObj kvs) k = Inr (map_of kvs k)"
| "get_prop j k = Inr None"

text \<open>\<^verbatim>\<open>v || ''\<close> for a property value \<open>v\<close>.\<close>

definition or_empty :: "json option \<Rightarrow> json" where
  "or_empty v = (case v of None \<Rightarrow> JStr [] | Some j \<Rightarrow> if truthy j then j else JStr [])"

text \<open>\<^verbatim>\<open>${v}\<close> in a template literal: a string is inserted as it is, any other value
  through the built-in string conversion.\<close>

definition interpolate :: "env \<Rightarrow> json \<Rightarrow> string" where
  "interpolate env v = (case v of JStr s \<Rightarrow> s | _ \<Rightarrow> toString env v)"

section \<open>services/language.ts\<close>

definition classify_request :: "string \<Rightarrow> request" where
  "classify_request text =
     \<lparr> model = ''gpt-3.5-turbo'',
       messages =
         [(''system'', Text ''You are a language detection assistant. Respond with only 'english' or 'non-english'.''),
          (''user'', Text (''Is this text in English? Answer with only 'english' or 'non-english': '' @ text))],
       max_tokens = 10,
       response_format = None \<rparr>"

text \<open>The test \<^verbatim>\<open>detections && detections.length > 0 && detections[0].lang === 'en'\<close>;
  \<open>None\<close> is a null or undefined result of the detector.\<close>

definition top_guess_en :: "detection list option \<Rightarrow> bool" where
  "top_guess_en detections = (case detections of Some (d # _) \<Rightarrow> lang d = ''en'' | _ \<Rightarrow> False)"

text \<open>\<^verbatim>\<open>content?.trim().toLowerCase() || ''\<close>.\<close>

definition normalized_reply :: "env \<Rightarrow> string option \<Rightarrow> string" where
  "normalized_reply env c = or_default (map_option (\<lambda>s. toLowerCase env (trim env s)) c) []"

text \<open>The body of the \<^verbatim>\<open>try\<close> block of \<^verbatim>\<open>isEnglish\<close>; \<open>Inl\<close> is a throw inside it.\<close>

definition isEnglish_try :: "env \<Rightarrow> string \<Rightarrow> event list \<Rightarrow> (js_error + bool) \<times> event list" where
  "isEnglish_try env text tr =
     (let tr1 = tr @ [Detect text] in
      case detect env tr text of
        Inl e \<Rightarrow> (Inl e, tr1)
      | Inr detections \<Rightarrow>
          if top_guess_en detections then (Inr True, tr1)
          else
            (let tr2 = tr1 @ [Create (classify_request text)] in
             case create env tr1 (classify_request text) of
               Inl e \<Rightarrow> (Inl e, tr2)
             | Inr response \<Rightarrow>
                 (case first_content response of
                    Inl e \<Rightarrow> (Inl e, tr2)
                  | Inr c \<Rightarrow>
                      (let result = normalized_reply env c
                       in (Inr (includes_str result ''english''), tr2)))))"

text \<open>\<^verbatim>\<open>isEnglish\<close>: the \<^verbatim>\<open>catch\<close> clause turns every throw of the body into \<open>True\<close>.\<close>

definition isEnglish :: "env \<Rightarrow> string \<Rightarrow> event list \<Rightarrow> bool \<times> event list" where
  "isEnglish env text tr =
     (case isEnglish_try env text tr of
        (Inl e, tr') \<Rightarrow> (True, tr')
      | (Inr b, tr') \<Rightarrow> (b, tr'))"

definition translate_request :: "env \<Rightarrow> json \<Rightarrow> request" where
  "translate_request env text =
     \<lparr> model = ''gpt-3.5-turbo'',
       messages =
         [(''system'', Text ''You are a translation assistant. Translate the text to English.''),
          (''user'', Text (''Translate this text to English: '' @ interpolate env text))],
       max_tokens = 1000,
       response_format = None \<rparr>"

text \<open>The body of the \<^verbatim>\<open>try\<close> block of \<^verbatim>\<open>translateText\<close>.\<close>

definition translateText_try :: "env \<Rightarrow> json \<Rightarrow> event list \<Rightarrow> (js_error + string) \<times> event list" where
  "translateText_try env text tr =
     (let tr1 = tr @ [Create (translate_request env text)] in
      case create env tr (translate_request env text) of
        Inl e \<Rightarrow> (Inl e, tr1)
      | Inr response \<Rightarrow>
          (case first_content response of
             Inl e \<Rightarrow> (Inl e, tr1)
           | Inr c \<Rightarrow> (Inr (or_default (map_option (trim env) c) ''Translation error''), tr1)))"

definition translateText :: "env \<Rightarrow> json \<Rightarrow> event list \<Rightarrow> string \<times> event list" where
  "translateText env text tr =
     (case translateText_try env text tr of
        (Inl e, tr') \<Rightarrow> (''Error translating text.'', tr')
      | (Inr s, tr') \<Rightarrow> (s, tr'))"

section \<open>services/image.ts\<close>

definition vision_request :: "string \<Rightarrow> request" where
  \<open>vision_request imageUrl =
     \<lparr> model = ''gpt-4-vision-preview'',
       messages =
         [(''user'',
           Parts [TextPart ''Extract any text in this image and determine if it's in English. Respond in JSON format with the following structure: {"text": "extracted text", "isEnglish": true/false}. If there is no text, set text to empty string and isEnglish to true.'',
                  ImageUrlPart imageUrl])],
       max_tokens = 1000,
       response_format = Some ''json_object'' \<rparr>\<close>

definition default_reply :: string where
  \<open>default_reply = ''{"text":"","isEnglish":true}''\<close>

text \<open>\<^verbatim>\<open>content?.trim() || '{"text":"","isEnglish":true}'\<close>.\<close>

definition response_content :: "env \<Rightarrow> string option \<Rightarrow> string" where
  "response_content env c = or_default (map_option (trim env) c) default_reply"

text \<open>The inner \<^verbatim>\<open>try\<close> block of \<^verbatim>\<open>analyzeImage\<close>: \<^verbatim>\<open>JSON.parse\<close> and the two
  property reads; \<open>Inl\<close> is a throw caught as \<^verbatim>\<open>parseError\<close>.\<close>

definition parse_result :: "env \<Rightarrow> string \<Rightarrow> js_error + analysis" where
  "parse_result env responseContent =
     (case JSON_parse env responseContent of
        Inl e \<Rightarrow> Inl e
      | Inr result \<Rightarrow>
          (case get_prop result ''text'' of
             Inl e \<Rightarrow> Inl e
           | Inr t \<Rightarrow>
               (case get_prop result ''isEnglish'' of
                  Inl e \<Rightarrow> Inl e
                | Inr ie \<Rightarrow>
                    Inr \<lparr> a_text = or_empty t,
                          a_isEnglish = (if ie = Some (JBool False) then False else True) \<rparr>)))"

definition analyzeImage :: "env \<Rightarrow> string \<Rightarrow> event list \<Rightarrow> analysis \<times> event list" where
  "analyzeImage env imageUrl tr =
     (let tr1 = tr @ [Create (vision_request imageUrl)] in
      case create env tr (vision_request imageUrl) of
        Inl e \<Rightarrow> (\<lparr> a_text = JStr [], a_isEnglish = True \<rparr>, tr1)
      | Inr response \<Rightarrow>
          (case first_content response of
             Inl e \<Rightarrow> (\<lparr> a_text = JStr [], a_isEnglish = True \<rparr>, tr1)
           | Inr c \<Rightarrow>
               (let responseContent = response_content env c in
                case parse_result env responseContent of
                  Inr r \<Rightarrow> (r, tr1)
                | Inl parseError \<Rightarrow>
                    if length responseContent > 0 \<and> \<not> includes_str responseContent ''NO_TEXT_FOUND''
                    then
                      (case isEnglish env responseContent tr1 of
                         (isTextEnglish, tr2) \<Rightarrow>
                           (\<lparr> a_text = JStr responseContent, a_isEnglish = isTextEnglish \<rparr>, tr2))
                    else (\<lparr> a_text = JStr [], a_isEnglish = True \<rparr>, tr1))))"

section \<open>index.ts: the channel post handler\<close>

definition reply_template :: "string \<Rightarrow> string" where
  "reply_template translation =
     ''Translation: '' @ translation @
     ''\<newline>\<newline>Please, refrain from usage of any language except English''"

text \<open>\<^verbatim>\<open>translateText\<close> followed by \<^verbatim>\<open>ctx.api.sendMessage\<close>, as both branches of the
  handler do; \<open>Inl\<close> is a throw of \<^verbatim>\<open>sendMessage\<close>, which the handler does not catch.\<close>

definition translate_and_reply :: "env \<Rightarrow> post \<Rightarrow> json \<Rightarrow> event list \<Rightarrow> (js_error + unit) \<times> event list" where
  "translate_and_reply env msg text tr =
     (case translateText env text tr of
        (translation, tr1) \<Rightarrow>
          (let body = reply_template translation;
               tr2 = tr1 @ [SendMessage (chat_id msg) body (message_id msg)]
           in case sendMessage env tr1 (chat_id msg) body (message_id msg) of
                Some e \<Rightarrow> (Inl e, tr2)
              | None \<Rightarrow> (Inr (), tr2)))"

text \<open>The block \<^verbatim>\<open>if (message.text) { ... }\<close>.\<close>

definition handle_text :: "env \<Rightarrow> post \<Rightarrow> event list \<Rightarrow> (js_error + unit) \<times> event list" where
  "handle_text env msg tr =
     (case post_text msg of
        None \<Rightarrow> (Inr (), tr)
      | Some text \<Rightarrow>
          if text = [] then (Inr (), tr)
          else
            (case isEnglish env text tr of
               (english, tr1) \<Rightarrow>
                 if \<not> english then translate_and_reply env msg (JStr text) tr1
                 else (Inr (), tr1)))"

text \<open>The block \<^verbatim>\<open>if (message.photo && message.photo.length > 0) { ... }\<close>; the
  \<^verbatim>\<open>return\<close> on a missing file path ends the handler, which has nothing after this block.\<close>

definition handle_photo :: "env \<Rightarrow> post \<Rightarrow> event list \<Rightarrow> (js_error + unit) \<times> event list" where
  "handle_photo env msg tr =
     (case post_photo msg of
        None \<Rightarrow> (Inr (), tr)
      | Some photos \<Rightarrow>
          if \<not> length photos > 0 then (Inr (), tr)
          else
            (let photo = photos ! (length photos - 1);
                 tr1 = tr @ [GetFile (file_id photo)]
             in case getFile env tr (file_id photo) of
                  Inl e \<Rightarrow> (Inl e, tr1)
                | Inr None \<Rightarrow> (Inr (), tr1)
                | Inr (Some file_path) \<Rightarrow>
                    if file_path = [] then (Inr (), tr1)
                    else
                      (let fileUrl = ''https://api.telegram.org/file/bot'' @ TELEGRAM_BOT_TOKEN env
                                       @ ''/'' @ file_path
                       in case analyzeImage env fileUrl tr1 of
                            (r, tr2) \<Rightarrow>
                              if truthy (a_text r) \<and> \<not> a_isEnglish r
                              then translate_and_reply env msg (a_text r) tr2
                              else (Inr (), tr2))))"

text \<open>The handler registered with \<^verbatim>\<open>bot.on('channel_post', ...)\<close>; \<open>None\<close> is an update
  without a channel post.\<close>

definition channel_post :: "env \<Rightarrow> post option \<Rightarrow> event list \<Rightarrow> (js_error + unit) \<times> event list" where
  "channel_post env update tr =
     (case update of
        None \<Rightarrow> (Inr (), tr)
      | Some msg \<Rightarrow>
          (case handle_text env msg tr of
             (Inl e, tr1) \<Rightarrow> (Inl e, tr1)
           | (Inr u, tr1) \<Rightarrow> handle_photo env msg tr1))"

section \<open>Sample environments\<close>

text \<open>Concrete oracles on which the theorems below are instantiated. \<open>ascii_trim\<close> and
  \<open>ascii_toLowerCase\<close> are the two string built-ins on ASCII strings; \<open>parse_table\<close> is
  \<^verbatim>\<open>JSON.parse\<close> on the listed texts and a SyntaxError elsewhere.\<close>

definition is_space :: "char \<Rightarrow> bool" where
  "is_space c = (c \<in> set [CHR 0x09, CHR 0x0A, CHR 0x0B, CHR 0x0C, CHR 0x0D, CHR '' ''])"

definition ascii_trim :: "string \<Rightarrow> string" where
  "ascii_trim s = rev (dropWhile is_space (rev (dropWhile is_space s)))"

definition ascii_toLowerCase :: "string \<Rightarrow> string" where
  "ascii_toLowerCase s =
     map (\<lambda>c. case map_of (zip ''ABCDEFGHIJKLMNOPQRSTUVWXYZ'' ''abcdefghijklmnopqrstuvwxyz'') c of
                Some l \<Rightarrow> l
              | None \<Rightarrow> c) s"

definition parse_table :: "(string \<times> json) list \<Rightarrow> string \<Rightarrow> js_error + json" where
  "parse_table t s =
     (case map_of t s of
        Some j \<Rightarrow> Inr j
      | None \<Rightarrow> Inl (SyntaxError ''Unexpected token''))"

definition sample_parse :: "string \<Rightarrow> js_error + json" where
  \<open>sample_parse =
     parse_table
       [(''{"text":"","isEnglish":true}'', JObj [(''text'', JStr []), (''isEnglish'', JBool True)]),
        (''{"text":"","isEnglish":false}'', JObj [(''text'', JStr []), (''isEnglish'', JBool False)]),
        (''{"text":"Bonjour","isEnglish":false}'',
           JObj [(''text'', JStr ''Bonjour''), (''isEnglish'', JBool False)]),
        (''{"text":"Hola","isEnglish":"no"}'',
           JObj [(''text'', JStr ''Hola''), (''isEnglish'', JStr ''no'')]),
        (''"Bonjour le monde"'', JStr ''Bonjour le monde'')]\<close>

definition reply :: "string option \<Rightarrow> js_error + response" where
  "reply c = Inr \<lparr> choices = [\<lparr> message = \<lparr> content = c \<rparr> \<rparr>] \<rparr>"

definition sample_env ::
  "(js_error + detection list option) \<Rightarrow> (request \<Rightarrow> js_error + response) \<Rightarrow> env" where
  "sample_env d c =
     \<lparr> detect = (\<lambda>h t. d),
       create = (\<lambda>h. c),
       getFile = (\<lambda>h f. Inr (Some (''photos/'' @ f))),
       sendMessage = (\<lambda>h chat body mid. None),
       JSON_parse = sample_parse,
       trim = ascii_trim,
       toLowerCase = ascii_toLowerCase,
       toString = (\<lambda>j. ''[object Object]''),
       TELEGRAM_BOT_TOKEN = ''TOKEN'' \<rparr>"

text \<open>A post in French: the detector says \<open>fr\<close>, the classification request is answered
  \<open>french\<close>, the vision request with a structured reply, the translation request with
  \<open>Hello world\<close>.\<close>

definition french_env :: env where
  \<open>french_env =
     sample_env (Inr (Some [\<lparr> lang = ''fr'', prob = 0.9 \<rparr>]))
       (\<lambda>r. if max_tokens r = 10 then reply (Some ''french'')
            else if response_format r = Some ''json_object''
            then reply (Some ''{"text":"Bonjour","isEnglish":false}'')
            else reply (Some ''Hello world''))\<close>

definition text_post :: post where
  "text_post =
     \<lparr> message_id = 123, chat_id = 456, post_text = Some ''Bonjour le monde'', post_photo = None \<rparr>"

definition photo_post :: post where
  "photo_post =
     \<lparr> message_id = 123, chat_id = 456, post_text = None,
       post_photo = Some [\<lparr> file_id = ''small_photo_id'' \<rparr>, \<lparr> file_id = ''large_photo_id'' \<rparr>] \<rparr>"

definition empty_post :: post where
  "empty_post = \<lparr> message_id = 123, chat_id = 456, post_text = Some [], post_photo = None \<rparr>"

text \<open>The detector throws; the remote service would answer \<open>spanish\<close>.\<close>

definition throw_env :: env where
  "throw_env = sample_env (Inl (Error ''Langdetect error'')) (\<lambda>r. reply (Some ''spanish''))"

text \<open>The detector has no guess; the remote service answers \<open>unknown\<close>.\<close>

definition unsure_env :: env where
  "unsure_env = sample_env (Inr (Some [])) (\<lambda>r. reply (Some ''unknown''))"

text \<open>The detector has no guess; the remote service answers the negative token, with a
  capital and white space around it.\<close>

definition negative_env :: env where
  "negative_env = sample_env (Inr (Some [])) (\<lambda>r. reply (Some '' Non-English\<newline>''))"

text \<open>The client throws on every request.\<close>

definition offline_env :: env where
  "offline_env = sample_env (Inr (Some [])) (\<lambda>r. Inl (Error ''network down''))"

text \<open>The client answers every request with a null content.\<close>

definition silent_env :: env where
  "silent_env = sample_env (Inr (Some [])) (\<lambda>r. reply None)"

text \<open>The detector's top guess is \<open>en\<close> with a low confidence.\<close>

definition english_env :: env where
  "english_env =
     sample_env (Inr (Some [\<lparr> lang = ''en'', prob = 0.01 \<rparr>, \<lparr> lang = ''fr'', prob = 0.005 \<rparr>]))
       (\<lambda>r. reply (Some ''non-english''))"

text \<open>Replies to the vision request: a structured reply with an empty text and an explicit
  false; a structured reply whose classification is the string \<open>no\<close>; a JSON string in
  place of the object; a text that is not JSON.\<close>

definition empty_false_env :: env where
  \<open>empty_false_env = sample_env (Inr None) (\<lambda>r. reply (Some ''{"text":"","isEnglish":false}''))\<close>

definition hola_env :: env where
  \<open>hola_env = sample_env (Inr None) (\<lambda>r. reply (Some ''{"text":"Hola","isEnglish":"no"}''))\<close>

definition quoted_env :: env where
  \<open>quoted_env = sample_env (Inr (Some [])) (\<lambda>r. reply (Some ''"Bonjour le monde"''))\<close>

definition plain_env :: env where
  "plain_env =
     sample_env (Inr (Some [\<lparr> lang = ''en'', prob = 0.9 \<rparr>])) (\<lambda>r. reply (Some ''This is not valid JSON''))"

section \<open>Notions used to state the properties\<close>

text \<open>The events of a trace that are replies sent to the channel, and those that are
  requests of \<open>translateText\<close> (recognised by their system prompt).\<close>

definition is_reply :: "event \<Rightarrow> bool" where
  "is_reply e = (case e of SendMessage c b m \<Rightarrow> True | _ \<Rightarrow> False)"

definition is_translation :: "event \<Rightarrow> bool" where
  "is_translation e =
     (case e of
        Create r \<Rightarrow>
          take 1 (messages r) =
            [(''system'', Text ''You are a translation assistant. Translate the text to English.'')]
      | _ \<Rightarrow> False)"

text \<open>What one run of the handler on a post adds to the trace.\<close>

definition handler_events :: "env \<Rightarrow> post \<Rightarrow> event list \<Rightarrow> event list" where
  "handler_events env msg tr = drop (length tr) (snd (channel_post env (Some msg) tr))"

text \<open>The reply to the vision request parses to a value whose \<^verbatim>\<open>isEnglish\<close> property is
  the boolean false.\<close>

definition reply_says_false :: "env \<Rightarrow> string \<Rightarrow> event list \<Rightarrow> bool" where
  "reply_says_false env imageUrl tr =
     (case create env tr (vision_request imageUrl) of
        Inl e \<Rightarrow> False
      | Inr response \<Rightarrow>
          (case first_content response of
             Inl e \<Rightarrow> False
           | Inr c \<Rightarrow>
               (case JSON_parse env (response_content env c) of
                  Inl e \<Rightarrow> False
                | Inr result \<Rightarrow> get_prop result ''isEnglish'' = Inr (Some (JBool False)))))"

text \<open>The structure the vision prompt asks for, in the words of the specification: an
  object with a string \<^verbatim>\<open>text\<close>; the classification may be absent or of any type.\<close>

definition expected_structure :: "json \<Rightarrow> bool" where
  "expected_structure j =
     (case j of
        JObj kvs \<Rightarrow> (case map_of kvs ''text'' of Some (JStr s) \<Rightarrow> True | _ \<Rightarrow> False)
      | _ \<Rightarrow> False)"

section \<open>Properties\<close>

subsection \<open>Auxiliary facts\<close>

lemma includes_iff: "includes_str s t \<longleftrightarrow> (\<exists>p q. s = p @ t @ q)"
proof (induction s)
  case Nil
  then show ?case by auto
next
  case (Cons c s)
  have "take (length t) (c # s) = t \<longleftrightarrow> (\<exists>q. c # s = t @ q)"
    by (metis append_eq_conv_conj)
  moreover have "(\<exists>p q. c # s = p @ t @ q) \<longleftrightarrow> (\<exists>q. c # s = t @ q) \<or> (\<exists>p q. s = p @ t @ q)"
  proof
    assume "\<exists>p q. c # s = p @ t @ q"
    then obtain p q where pq: "c # s = p @ t @ q" by blast
    show "(\<exists>q. c # s = t @ q) \<or> (\<exists>p q. s = p @ t @ q)"
    proof (cases p)
      case Nil
      with pq show ?thesis by auto
    next
      case (Cons a p')
      with pq have "s = p' @ t @ q" by simp
      then show ?thesis by blast
    qed
  next
    assume "(\<exists>q. c # s = t @ q) \<or> (\<exists>p q. s = p @ t @ q)"
    then show "\<exists>p q. c # s = p @ t @ q"
    proof
      assume "\<exists>q. c # s = t @ q"
      then obtain q where "c # s = [] @ t @ q" by auto
      then show ?thesis by blast
    next
      assume "\<exists>p q. s = p @ t @ q"
      then obtain p q where "c # s = (c # p) @ t @ q" by auto
      then show ?thesis by blast
    qed
  qed
  ultimately show ?case using Cons.IH by simp
qed

lemma sample_env_simps [simp]:
  "detect (sample_env d c) h t = d"
  "create (sample_env d c) h = c"
  "getFile (sample_env d c) h f = Inr (Some (''photos/'' @ f))"
  "sendMessage (sample_env d c) h chat body mid = None"
  "JSON_parse (sample_env d c) = sample_parse"
  "trim (sample_env d c) = ascii_trim"
  "toLowerCase (sample_env d c) = ascii_toLowerCase"
  "TELEGRAM_BOT_TOKEN (sample_env d c) = ''TOKEN''"
  by (simp_all add: sample_env_def)

lemmas service_defs =
  isEnglish_def isEnglish_try_def top_guess_en_def normalized_reply_def
  translateText_def translateText_try_def
  analyzeImage_def parse_result_def response_content_def default_reply_def or_empty_def
  first_content_def or_default_def Let_def

lemmas sample_defs =
  reply_def sample_parse_def parse_table_def ascii_trim_def ascii_toLowerCase_def is_space_def

text \<open>What each service adds to the trace.\<close>

lemma isEnglish_cases:
  "isEnglish env t tr = (True, tr @ [Detect t]) \<or>
   (\<exists>b. isEnglish env t tr = (b, tr @ [Detect t, Create (classify_request t)]))"
  by (auto simp add: isEnglish_def isEnglish_try_def Let_def split: sum.splits)

lemma translateText_trace:
  "snd (translateText env v tr) = tr @ [Create (translate_request env v)]"
  by (simp add: translateText_def translateText_try_def Let_def split: sum.splits)

lemma is_translation_simps [simp]:
  "\<not> is_translation (Detect t)"
  "\<not> is_translation (GetFile f)"
  "\<not> is_translation (SendMessage c b m)"
  "\<not> is_translation (Create (classify_request t))"
  "\<not> is_translation (Create (vision_request u))"
  "is_translation (Create (translate_request env v))"
  by (simp_all add: is_translation_def classify_request_def vision_request_def translate_request_def)

lemma is_reply_simps [simp]:
  "\<not> is_reply (Detect t)"
  "\<not> is_reply (GetFile f)"
  "is_reply (SendMessage c b m)"
  "\<not> is_reply (Create r)"
  by (simp_all add: is_reply_def)

lemma isEnglish_quiet:
  "\<exists>evs. snd (isEnglish env t tr) = tr @ evs \<and> filter is_reply evs = [] \<and>
         filter is_translation evs = []"
  using isEnglish_cases [of env t tr] by auto

lemma analyzeImage_quiet:
  "\<exists>evs. snd (analyzeImage env url tr) = tr @ evs \<and> filter is_reply evs = [] \<and>
         filter is_translation evs = []"
proof -
  let ?tr1 = "tr @ [Create (vision_request url)]"
  have "snd (analyzeImage env url tr) = ?tr1 \<or>
        (\<exists>t. snd (analyzeImage env url tr) = snd (isEnglish env t ?tr1))"
    by (auto simp add: analyzeImage_def Let_def split_beta split: sum.splits)
  then show ?thesis
  proof
    assume "snd (analyzeImage env url tr) = ?tr1"
    then show ?thesis by simp
  next
    assume "\<exists>t. snd (analyzeImage env url tr) = snd (isEnglish env t ?tr1)"
    then obtain t where t: "snd (analyzeImage env url tr) = snd (isEnglish env t ?tr1)"
      by blast
    from isEnglish_quiet [of env t ?tr1] obtain evs where
      "snd (isEnglish env t ?tr1) = ?tr1 @ evs" "filter is_reply evs = []"
      "filter is_translation evs = []"
      by blast
    with t show ?thesis by simp
  qed
qed

lemma translate_and_reply_trace:
  "snd (translate_and_reply env msg v tr) =
     tr @ [Create (translate_request env v),
           SendMessage (chat_id msg) (reply_template (fst (translateText env v tr))) (message_id msg)]"
  using translateText_trace [of env v tr]
  by (simp add: translate_and_reply_def Let_def split_beta split: option.splits)

lemma handle_text_trace:
  assumes "post_text msg = Some t"
  shows "snd (handle_text env msg tr) =
     (if t = [] then tr
      else if fst (isEnglish env t tr) then snd (isEnglish env t tr)
      else snd (isEnglish env t tr) @
        [Create (translate_request env (JStr t)),
         SendMessage (chat_id msg)
           (reply_template (fst (translateText env (JStr t) (snd (isEnglish env t tr)))))
           (message_id msg)])"
  using assms by (simp add: handle_text_def split_beta translate_and_reply_trace)

lemma handle_photo_trace:
  assumes "post_photo msg = Some photos" "photos \<noteq> []"
    and "getFile env tr (file_id (last photos)) = Inr (Some path)" "path \<noteq> []"
    and "analyzeImage env (''https://api.telegram.org/file/bot'' @ TELEGRAM_BOT_TOKEN env @ ''/'' @ path)
           (tr @ [GetFile (file_id (last photos))]) = (r, tr')"
  shows "snd (handle_photo env msg tr) =
     (if truthy (a_text r) \<and> \<not> a_isEnglish r
      then tr' @
        [Create (translate_request env (a_text r)),
         SendMessage (chat_id msg) (reply_template (fst (translateText env (a_text r) tr')))
           (message_id msg)]
      else tr')"
  using assms
  by (simp add: handle_photo_def Let_def last_conv_nth translate_and_reply_trace)

lemma handle_photo_no_file:
  assumes "post_photo msg = Some photos" "photos \<noteq> []"
    and "getFile env tr (file_id (last photos)) = Inl e \<or>
         getFile env tr (file_id (last photos)) = Inr None \<or>
         getFile env tr (file_id (last photos)) = Inr (Some [])"
  shows "snd (handle_photo env msg tr) = tr @ [GetFile (file_id (last photos))]"
  using assms by (auto simp add: handle_photo_def Let_def last_conv_nth)

lemma channel_post_text_only:
  assumes "post_photo msg = None"
  shows "snd (channel_post env (Some msg) tr) = snd (handle_text env msg tr)"
  using assms
  by (cases "handle_text env msg tr")
     (auto simp add: channel_post_def handle_photo_def split: sum.splits)

lemma channel_post_photo_only:
  assumes "post_text msg = None"
  shows "snd (channel_post env (Some msg) tr) = snd (handle_photo env msg tr)"
  using assms by (simp add: channel_post_def handle_text_def)

lemma isEnglish_remote:
  assumes "detect env tr t = Inr ds" "\<not> top_guess_en ds"
    and "create env (tr @ [Detect t]) (classify_request t) = Inr r" "choices r = ch # chs"
  shows "isEnglish env t tr =
           (includes_str (normalized_reply env (content (message ch))) ''english'',
            tr @ [Detect t, Create (classify_request t)])"
  using assms by (simp add: isEnglish_def isEnglish_try_def first_content_def Let_def)

text \<open>The sample environments, evaluated.\<close>

lemma french_isEnglish:
  "isEnglish french_env ''Bonjour le monde'' [] =
     (False, [Detect ''Bonjour le monde'', Create (classify_request ''Bonjour le monde'')])"
  by (simp add: french_env_def classify_request_def service_defs sample_defs)

lemma french_translateText:
  "fst (translateText french_env v tr) = ''Hello world''"
  by (simp add: french_env_def translate_request_def service_defs sample_defs)

lemma french_analyzeImage:
  "analyzeImage french_env u tr =
     (\<lparr> a_text = JStr ''Bonjour'', a_isEnglish = False \<rparr>, tr @ [Create (vision_request u)])"
  by (simp add: french_env_def vision_request_def service_defs sample_defs)

subsection \<open>The classifier \<open>isEnglish\<close>\<close>

text \<open>
  C1, as the code has it. When the detector returns without throwing and its result is
  inconclusive (null, empty, or a top guess other than \<open>en\<close>) and the remote service
  answers with at least one choice, \<open>isEnglish\<close> sends the classification request and
  returns true if and only if \<open>english\<close> occurs in the trimmed, lower-cased content of
  the first choice; a missing content, or one that is empty after trimming, yields
  false. When the detector throws, \<open>isEnglish\<close> returns true and sends no request: the
  detector call is inside the \<^verbatim>\<open>try\<close> block whose \<^verbatim>\<open>catch\<close> returns true.
\<close>

theorem isEnglish_fallback:
  "(detect env tr t = Inr ds \<and> \<not> top_guess_en ds \<and>
    create env (tr @ [Detect t]) (classify_request t) = Inr r \<and> choices r = ch # chs \<longrightarrow>
      snd (isEnglish env t tr) = tr @ [Detect t, Create (classify_request t)] \<and>
      (fst (isEnglish env t tr) \<longleftrightarrow>
         (\<exists>p q. normalized_reply env (content (message ch)) = p @ ''english'' @ q)) \<and>
      (normalized_reply env (content (message ch)) = [] \<longrightarrow> \<not> fst (isEnglish env t tr)))
   \<and> normalized_reply env None = []
   \<and> (detect env tr t = Inl e \<longrightarrow> isEnglish env t tr = (True, tr @ [Detect t]))"
proof (intro conjI impI)
  assume a: "detect env tr t = Inr ds \<and> \<not> top_guess_en ds \<and>
    create env (tr @ [Detect t]) (classify_request t) = Inr r \<and> choices r = ch # chs"
  then have eq: "isEnglish env t tr =
           (includes_str (normalized_reply env (content (message ch))) ''english'',
            tr @ [Detect t, Create (classify_request t)])"
    using isEnglish_remote [of env tr t ds r ch chs] by blast
  show "snd (isEnglish env t tr) = tr @ [Detect t, Create (classify_request t)]"
    by (simp add: eq)
  show "fst (isEnglish env t tr) \<longleftrightarrow>
         (\<exists>p q. normalized_reply env (content (message ch)) = p @ ''english'' @ q)"
    by (simp only: eq fst_conv includes_iff)
  show "\<not> fst (isEnglish env t tr)" if "normalized_reply env (content (message ch)) = []"
    using that by (simp add: eq)
next
  show "normalized_reply env None = []"
    by (simp add: normalized_reply_def or_default_def)
next
  assume "detect env tr t = Inl e"
  then show "isEnglish env t tr = (True, tr @ [Detect t])"
    by (simp add: isEnglish_def isEnglish_try_def)
qed

theorem isEnglish_fallback_witness:
  "detect french_env [] ''Bonjour le monde'' = Inr (Some [\<lparr> lang = ''fr'', prob = 0.9 \<rparr>])
   \<and> \<not> top_guess_en (Some [\<lparr> lang = ''fr'', prob = 0.9 \<rparr>])
   \<and> create french_env ([] @ [Detect ''Bonjour le monde'']) (classify_request ''Bonjour le monde'')
       = reply (Some ''french'')
   \<and> snd (isEnglish french_env ''Bonjour le monde'' [])
       = [Detect ''Bonjour le monde'', Create (classify_request ''Bonjour le monde'')]
   \<and> \<not> (\<exists>p q. normalized_reply french_env (Some ''french'') = p @ ''english'' @ q)
   \<and> detect throw_env [] ''hola'' = Inl (Error ''Langdetect error'')
   \<and> isEnglish throw_env ''hola'' [] = (True, [] @ [Detect ''hola''])"
proof -
  have d: "detect french_env [] ''Bonjour le monde'' = Inr (Some [\<lparr> lang = ''fr'', prob = 0.9 \<rparr>])"
    by (simp add: french_env_def)
  have g: "\<not> top_guess_en (Some [\<lparr> lang = ''fr'', prob = 0.9 \<rparr>])"
    by (simp add: top_guess_en_def)
  have c: "create french_env ([] @ [Detect ''Bonjour le monde'']) (classify_request ''Bonjour le monde'')
             = Inr \<lparr> choices = [\<lparr> message = \<lparr> content = Some ''french'' \<rparr> \<rparr>] \<rparr>"
    by (simp add: french_env_def classify_request_def reply_def)
  have ch: "choices \<lparr> choices = [\<lparr> message = \<lparr> content = Some ''french'' \<rparr> \<rparr>] \<rparr>
              = \<lparr> message = \<lparr> content = Some ''french'' \<rparr> \<rparr> # []"
    by simp
  have th: "detect throw_env [] ''hola'' = Inl (Error ''Langdetect error'')"
    by (simp add: throw_env_def)
  note fr = isEnglish_fallback
    [of french_env "[]" "''Bonjour le monde''" "Some [\<lparr> lang = ''fr'', prob = 0.9 \<rparr>]"
        "\<lparr> choices = [\<lparr> message = \<lparr> content = Some ''french'' \<rparr> \<rparr>] \<rparr>"
        "\<lparr> message = \<lparr> content = Some ''french'' \<rparr> \<rparr>" "[]"]
  note thr = isEnglish_fallback [of throw_env "[]" "''hola''" _ _ _ _ "Error ''Langdetect error''"]
  have f: "\<not> fst (isEnglish french_env ''Bonjour le monde'' [])"
    by (simp add: french_isEnglish)
  from fr d g c ch f have
    "snd (isEnglish french_env ''Bonjour le monde'' [])
       = [Detect ''Bonjour le monde'', Create (classify_request ''Bonjour le monde'')]"
    and "\<not> (\<exists>p q. normalized_reply french_env (Some ''french'') = p @ ''english'' @ q)"
    by simp_all
  moreover from thr th have "isEnglish throw_env ''hola'' [] = (True, [] @ [Detect ''hola''])"
    by blast
  ultimately show ?thesis
    using d g c th by (simp add: reply_def)
qed

text \<open>
  C1, as the specification states it, fails when the detector throws: the remote service
  is not asked, and the result is true although the reply it would have given does not
  contain \<open>english\<close>.
\<close>

theorem isEnglish_detector_throw_counterexample:
  "detect throw_env [] ''hola'' = Inl (Error ''Langdetect error'')
   \<and> create throw_env [Detect ''hola''] (classify_request ''hola'') = reply (Some ''spanish'')
   \<and> \<not> includes_str (normalized_reply throw_env (Some ''spanish'')) ''english''
   \<and> isEnglish throw_env ''hola'' [] = (True, [Detect ''hola''])"
  by (simp add: throw_env_def service_defs sample_defs)

text \<open>
  C2. When the detector is inconclusive and the trimmed, lower-cased content of the remote
  reply is exactly \<open>non-english\<close>, the negative token of the prompt, \<open>isEnglish\<close> returns
  true, because \<open>english\<close> occurs in \<open>non-english\<close>. The positive token gives true as
  well, so a reply that is one of the two tokens never gives the verdict false.
\<close>

theorem two_token_reply:
  assumes "detect env tr t = Inr ds" "\<not> top_guess_en ds"
    and "create env (tr @ [Detect t]) (classify_request t) = Inr r" "choices r = ch # chs"
    and "content (message ch) = Some c"
    and "toLowerCase env (trim env c) = ''non-english'' \<or> toLowerCase env (trim env c) = ''english''"
  shows "isEnglish env t tr = (True, tr @ [Detect t, Create (classify_request t)])"
  using assms
  by (auto simp add: isEnglish_def isEnglish_try_def first_content_def Let_def
        normalized_reply_def or_default_def)

theorem two_token_reply_witness:
  "detect negative_env [] ''hola'' = Inr (Some [])
   \<and> \<not> top_guess_en (Some [])
   \<and> create negative_env ([] @ [Detect ''hola'']) (classify_request ''hola'')
       = reply (Some '' Non-English\<newline>'')
   \<and> toLowerCase negative_env (trim negative_env '' Non-English\<newline>'') = ''non-english''
   \<and> isEnglish negative_env ''hola'' [] = (True, [] @ [Detect ''hola'', Create (classify_request ''hola'')])"
proof -
  have d: "detect negative_env [] ''hola'' = Inr (Some [])"
    by (simp add: negative_env_def)
  have g: "\<not> top_guess_en (Some [])"
    by (simp add: top_guess_en_def)
  have c: "create negative_env ([] @ [Detect ''hola'']) (classify_request ''hola'')
             = Inr \<lparr> choices = [\<lparr> message = \<lparr> content = Some '' Non-English\<newline>'' \<rparr> \<rparr>] \<rparr>"
    by (simp add: negative_env_def reply_def)
  have ch: "choices \<lparr> choices = [\<lparr> message = \<lparr> content = Some '' Non-English\<newline>'' \<rparr> \<rparr>] \<rparr>
              = \<lparr> message = \<lparr> content = Some '' Non-English\<newline>'' \<rparr> \<rparr> # []"
    by simp
  have m: "content (message \<lparr> message = \<lparr> content = Some '' Non-English\<newline>'' \<rparr> \<rparr>)
              = Some '' Non-English\<newline>''"
    by simp
  have n: "toLowerCase negative_env (trim negative_env '' Non-English\<newline>'') = ''non-english''"
    by (simp add: negative_env_def sample_defs)
  from two_token_reply [OF d g c ch m disjI1 [OF n]] d g c n show ?thesis
    by (simp add: reply_def)
qed

text \<open>
  C3. If the remote classification call fails, that is the language-model client throws
  on the request that \<open>isEnglish\<close> sends after the detector was asked, then \<open>isEnglish\<close>
  returns true. The result type of \<open>isEnglish\<close> has no error: its \<^verbatim>\<open>catch\<close> clause
  turns every throw of the \<^verbatim>\<open>try\<close> body into the value true.
\<close>

theorem isEnglish_remote_failure:
  assumes "create env (tr @ [Detect t]) (classify_request t) = Inl e"
  shows "fst (isEnglish env t tr) = True"
  using assms
  by (simp add: isEnglish_def isEnglish_try_def Let_def split: sum.splits)

theorem isEnglish_remote_failure_witness:
  "create offline_env ([] @ [Detect ''hola'']) (classify_request ''hola'') = Inl (Error ''network down'')
   \<and> fst (isEnglish offline_env ''hola'' []) = True"
proof -
  have c: "create offline_env ([] @ [Detect ''hola'']) (classify_request ''hola'')
             = Inl (Error ''network down'')"
    by (simp add: offline_env_def)
  from isEnglish_remote_failure [OF c] c show ?thesis by simp
qed

text \<open>
  C7. When the top-ranked guess of the detector has the language code \<open>en\<close>, whatever
  its confidence, \<open>isEnglish\<close> returns true and the trace gains the detector call only:
  no request is sent. The result is the same for any two behaviours \<open>c1\<close>, \<open>c2\<close> of the
  remote service.
\<close>

theorem isEnglish_fast_path:
  assumes "detect env tr t = Inr (Some (d # ds))" "lang d = ''en''"
  shows "isEnglish env t tr = (True, tr @ [Detect t]) \<and>
         isEnglish (env\<lparr>create := c1\<rparr>) t tr = isEnglish (env\<lparr>create := c2\<rparr>) t tr"
  using assms by (simp add: isEnglish_def isEnglish_try_def top_guess_en_def)

theorem isEnglish_fast_path_witness:
  "detect english_env [] ''Hello world''
     = Inr (Some (\<lparr> lang = ''en'', prob = 0.01 \<rparr> # [\<lparr> lang = ''fr'', prob = 0.005 \<rparr>]))
   \<and> lang \<lparr> lang = ''en'', prob = 0.01 \<rparr> = ''en''
   \<and> isEnglish english_env ''Hello world'' [] = (True, [] @ [Detect ''Hello world''])
   \<and> isEnglish (english_env\<lparr>create := (\<lambda>h r. Inl (Error ''network down''))\<rparr>) ''Hello world'' []
       = isEnglish (english_env\<lparr>create := (\<lambda>h r. reply (Some ''french''))\<rparr>) ''Hello world'' []"
proof -
  have d: "detect english_env [] ''Hello world''
     = Inr (Some (\<lparr> lang = ''en'', prob = 0.01 \<rparr> # [\<lparr> lang = ''fr'', prob = 0.005 \<rparr>]))"
    by (simp add: english_env_def)
  have l: "lang \<lparr> lang = ''en'', prob = 0.01 \<rparr> = ''en''"
    by simp
  from isEnglish_fast_path
         [OF d l, of "\<lambda>h r. Inl (Error ''network down'')" "\<lambda>h r. reply (Some ''french'')"] d l
  show ?thesis by simp
qed

text \<open>
  C10, as the code has it. \<open>isEnglish\<close> treats the empty string as any other text: it
  returns false on it exactly when the detector returns without throwing, its result is
  inconclusive, the remote service answers with at least one choice and the trimmed,
  lower-cased content of the first choice does not contain \<open>english\<close>; it returns true
  otherwise. It is the handler that never flags an empty text: a post whose text is the
  empty string, without a photo, causes no call at all.
\<close>

theorem empty_text_never_dispatched:
  "(post_text msg = Some [] \<and> post_photo msg = None \<longrightarrow>
      channel_post env (Some msg) tr = (Inr (), tr))
   \<and> (\<not> fst (isEnglish env [] tr) \<longleftrightarrow>
        (\<exists>ds r ch chs. detect env tr [] = Inr ds \<and> \<not> top_guess_en ds \<and>
           create env (tr @ [Detect []]) (classify_request []) = Inr r \<and> choices r = ch # chs \<and>
           \<not> includes_str (normalized_reply env (content (message ch))) ''english''))"
proof (intro conjI impI iffI)
  assume "post_text msg = Some [] \<and> post_photo msg = None"
  then show "channel_post env (Some msg) tr = (Inr (), tr)"
    by (simp add: channel_post_def handle_text_def handle_photo_def)
next
  assume "\<not> fst (isEnglish env [] tr)"
  then show "\<exists>ds r ch chs. detect env tr [] = Inr ds \<and> \<not> top_guess_en ds \<and>
           create env (tr @ [Detect []]) (classify_request []) = Inr r \<and> choices r = ch # chs \<and>
           \<not> includes_str (normalized_reply env (content (message ch))) ''english''"
    by (auto simp add: isEnglish_def isEnglish_try_def first_content_def Let_def
          split: sum.splits list.splits if_splits)
next
  assume "\<exists>ds r ch chs. detect env tr [] = Inr ds \<and> \<not> top_guess_en ds \<and>
           create env (tr @ [Detect []]) (classify_request []) = Inr r \<and> choices r = ch # chs \<and>
           \<not> includes_str (normalized_reply env (content (message ch))) ''english''"
  then obtain ds r ch chs where h: "detect env tr [] = Inr ds" "\<not> top_guess_en ds"
      "create env (tr @ [Detect []]) (classify_request []) = Inr r" "choices r = ch # chs"
      "\<not> includes_str (normalized_reply env (content (message ch))) ''english''"
    by blast
  from isEnglish_remote [OF h(1-4)] h(5) show "\<not> fst (isEnglish env [] tr)"
    by simp
qed

theorem empty_text_never_dispatched_witness:
  "post_text empty_post = Some [] \<and> post_photo empty_post = None
   \<and> channel_post unsure_env (Some empty_post) [] = (Inr (), [])
   \<and> \<not> fst (isEnglish unsure_env [] [])
   \<and> (\<exists>ds r ch chs. detect unsure_env [] [] = Inr ds \<and> \<not> top_guess_en ds \<and>
         create unsure_env ([] @ [Detect []]) (classify_request []) = Inr r \<and> choices r = ch # chs \<and>
         \<not> includes_str (normalized_reply unsure_env (content (message ch))) ''english'')"
proof -
  have p: "post_text empty_post = Some [] \<and> post_photo empty_post = None"
    by (simp add: empty_post_def)
  have f: "\<not> fst (isEnglish unsure_env [] [])"
    by (simp add: unsure_env_def service_defs sample_defs)
  from empty_text_never_dispatched [of empty_post unsure_env "[]"] p f show ?thesis
    by blast
qed

text \<open>
  C10, as the specification states it, fails: on the empty string, with a detector that
  has no guess and a remote reply \<open>unknown\<close>, \<open>isEnglish\<close> returns false.
\<close>

theorem isEnglish_empty_counterexample:
  "isEnglish unsure_env [] [] = (False, [Detect [], Create (classify_request [])])"
  by (simp add: unsure_env_def service_defs sample_defs)

subsection \<open>The translator \<open>translateText\<close>\<close>

text \<open>
  C5, as the code has it. \<open>translateText\<close> never throws (its result type has no error)
  and has two placeholders: it returns \<open>Error translating text.\<close> when the remote call
  throws (or the response has no choice), \<open>Translation error\<close> when the content of the
  reply is missing or empty after trimming, and the trimmed content otherwise.
\<close>

theorem translateText_result:
  "fst (translateText env v tr) =
     (case create env tr (translate_request env v) of
        Inl e \<Rightarrow> ''Error translating text.''
      | Inr r \<Rightarrow>
          (case choices r of
             [] \<Rightarrow> ''Error translating text.''
           | ch # chs \<Rightarrow>
               (case content (message ch) of
                  None \<Rightarrow> ''Translation error''
                | Some c \<Rightarrow> if trim env c = [] then ''Translation error'' else trim env c)))"
  by (simp add: translateText_def translateText_try_def first_content_def or_default_def Let_def
        split: sum.splits list.splits option.splits)

theorem translateText_result_witness:
  "fst (translateText french_env (JStr ''Bonjour le monde'') []) = ''Hello world''
   \<and> fst (translateText offline_env (JStr ''Bonjour le monde'') []) = ''Error translating text.''
   \<and> fst (translateText silent_env (JStr ''Bonjour le monde'') []) = ''Translation error''"
  using translateText_result [of french_env "JStr ''Bonjour le monde''" "[]"]
    translateText_result [of offline_env "JStr ''Bonjour le monde''" "[]"]
    translateText_result [of silent_env "JStr ''Bonjour le monde''" "[]"]
  by (simp add: french_env_def offline_env_def silent_env_def translate_request_def sample_defs)

text \<open>
  C5, as the specification states it, fails: the placeholder returned when the remote call
  throws differs from the one returned when the reply is empty.
\<close>

theorem translateText_placeholder_counterexample:
  "fst (translateText offline_env (JStr ''Bonjour le monde'') []) = ''Error translating text.''
   \<and> fst (translateText silent_env (JStr ''Bonjour le monde'') []) = ''Translation error''
   \<and> fst (translateText offline_env (JStr ''Bonjour le monde'') [])
       \<noteq> fst (translateText silent_env (JStr ''Bonjour le monde'') [])"
  by (simp add: offline_env_def silent_env_def translate_request_def service_defs sample_defs)

subsection \<open>The extractor \<open>analyzeImage\<close>\<close>

text \<open>
  C4, as the code has it. If \<open>analyzeImage\<close> returns the empty string as text, then it
  returns true as the classification, unless the reply to the vision request parses to a
  value whose \<^verbatim>\<open>isEnglish\<close> property is the boolean false: the parsed branch copies that
  false whatever the text is.
\<close>

theorem analyzeImage_empty_text:
  assumes "a_text (fst (analyzeImage env url tr)) = JStr []" "\<not> reply_says_false env url tr"
  shows "a_isEnglish (fst (analyzeImage env url tr))"
  using assms
  by (auto simp add: analyzeImage_def reply_says_false_def parse_result_def Let_def split_beta
        split: sum.splits if_splits)

theorem analyzeImage_empty_text_witness:
  "a_text (fst (analyzeImage silent_env ''https://example.com/image.jpg'' [])) = JStr []
   \<and> \<not> reply_says_false silent_env ''https://example.com/image.jpg'' []
   \<and> a_isEnglish (fst (analyzeImage silent_env ''https://example.com/image.jpg'' []))"
proof -
  have t: "a_text (fst (analyzeImage silent_env ''https://example.com/image.jpg'' [])) = JStr []"
    by (simp add: silent_env_def service_defs sample_defs)
  have f: "\<not> reply_says_false silent_env ''https://example.com/image.jpg'' []"
    by (simp add: silent_env_def reply_says_false_def service_defs sample_defs)
  from analyzeImage_empty_text [OF t f] t f show ?thesis by simp
qed

text \<open>
  C4, as the specification states it, fails on the structured reply with an empty text and
  an explicit false: \<open>analyzeImage\<close> returns the empty text with the classification false.
\<close>

theorem analyzeImage_empty_false_counterexample:
  "analyzeImage empty_false_env ''https://example.com/image.jpg'' [] =
     (\<lparr> a_text = JStr [], a_isEnglish = False \<rparr>,
      [Create (vision_request ''https://example.com/image.jpg'')])"
  by (simp add: empty_false_env_def service_defs sample_defs)

text \<open>
  C8. When the reply to the vision request parses to an object whose \<^verbatim>\<open>text\<close> property is
  a string \<open>s\<close>, \<open>analyzeImage\<close> returns \<open>s\<close> as it is (the empty string too), and the
  classification false exactly when the \<^verbatim>\<open>isEnglish\<close> property is the boolean false:
  true when the property is absent or holds null, a number, a string or any other value.
  No classifier call is made.
\<close>

theorem analyzeImage_structured:
  assumes "create env tr (vision_request url) = Inr r" "choices r = ch # chs"
    and "JSON_parse env (response_content env (content (message ch))) = Inr (JObj kvs)"
    and "map_of kvs ''text'' = Some (JStr s)"
  shows "analyzeImage env url tr =
           (\<lparr> a_text = JStr s, a_isEnglish = (map_of kvs ''isEnglish'' \<noteq> Some (JBool False)) \<rparr>,
            tr @ [Create (vision_request url)])"
  using assms
  by (auto simp add: analyzeImage_def parse_result_def first_content_def or_empty_def Let_def)

theorem analyzeImage_structured_witness:
  \<open>create hola_env [] (vision_request ''https://example.com/image.jpg'')
     = reply (Some ''{"text":"Hola","isEnglish":"no"}'')
   \<and> JSON_parse hola_env (response_content hola_env (Some ''{"text":"Hola","isEnglish":"no"}''))
       = Inr (JObj [(''text'', JStr ''Hola''), (''isEnglish'', JStr ''no'')])
   \<and> analyzeImage hola_env ''https://example.com/image.jpg'' [] =
       (\<lparr> a_text = JStr ''Hola'', a_isEnglish = True \<rparr>,
        [] @ [Create (vision_request ''https://example.com/image.jpg'')])\<close>
proof -
  have c: \<open>create hola_env [] (vision_request ''https://example.com/image.jpg'')
     = Inr \<lparr> choices = [\<lparr> message = \<lparr> content = Some ''{"text":"Hola","isEnglish":"no"}'' \<rparr> \<rparr>] \<rparr>\<close>
    by (simp add: hola_env_def reply_def)
  have ch: \<open>choices \<lparr> choices = [\<lparr> message = \<lparr> content = Some ''{"text":"Hola","isEnglish":"no"}'' \<rparr> \<rparr>] \<rparr>
     = \<lparr> message = \<lparr> content = Some ''{"text":"Hola","isEnglish":"no"}'' \<rparr> \<rparr> # []\<close>
    by simp
  have p: \<open>JSON_parse hola_env (response_content hola_env
              (content (message \<lparr> message = \<lparr> content = Some ''{"text":"Hola","isEnglish":"no"}'' \<rparr> \<rparr>)))
       = Inr (JObj [(''text'', JStr ''Hola''), (''isEnglish'', JStr ''no'')])\<close>
    by (simp add: hola_env_def response_content_def or_default_def sample_defs)
  have m: "map_of [(''text'', JStr ''Hola''), (''isEnglish'', JStr ''no'')] ''text'' = Some (JStr ''Hola'')"
    by simp
  from analyzeImage_structured [OF c ch p m] c p show ?thesis
    by (simp add: reply_def)
qed

text \<open>
  C9, as the code has it. The second attempt is made when \<^verbatim>\<open>JSON.parse\<close> throws on the
  trimmed content of the reply, or yields null: then \<open>analyzeImage\<close> returns the trimmed
  content as text with the verdict of \<open>isEnglish\<close> on it, unless the trimmed content
  contains \<open>NO_TEXT_FOUND\<close>, in which case it returns the empty text and true. A content
  that is missing or empty after trimming is replaced by the default reply, which parses,
  and gives the empty text and true.
\<close>

theorem analyzeImage_unparseable:
  assumes "create env tr (vision_request url) = Inr r" "choices r = ch # chs"
  shows "((content (message ch) = None \<or> content (message ch) = Some c \<and> trim env c = []) \<and>
          JSON_parse env default_reply = Inr (JObj [(''text'', JStr []), (''isEnglish'', JBool True)]) \<longrightarrow>
            analyzeImage env url tr =
              (\<lparr> a_text = JStr [], a_isEnglish = True \<rparr>, tr @ [Create (vision_request url)]))
       \<and> (content (message ch) = Some c \<and> trim env c \<noteq> [] \<and>
          (JSON_parse env (trim env c) = Inl e \<or> JSON_parse env (trim env c) = Inr JNull) \<longrightarrow>
            analyzeImage env url tr =
              (if includes_str (trim env c) ''NO_TEXT_FOUND''
               then (\<lparr> a_text = JStr [], a_isEnglish = True \<rparr>, tr @ [Create (vision_request url)])
               else (\<lparr> a_text = JStr (trim env c),
                       a_isEnglish = fst (isEnglish env (trim env c) (tr @ [Create (vision_request url)])) \<rparr>,
                     snd (isEnglish env (trim env c) (tr @ [Create (vision_request url)])))))"
  using assms
  by (auto simp add: analyzeImage_def parse_result_def first_content_def response_content_def
        or_default_def or_empty_def Let_def split_beta)

theorem analyzeImage_unparseable_witness:
  "create plain_env [] (vision_request ''https://example.com/image.jpg'')
     = reply (Some ''This is not valid JSON'')
   \<and> trim plain_env ''This is not valid JSON'' = ''This is not valid JSON''
   \<and> JSON_parse plain_env ''This is not valid JSON'' = Inl (SyntaxError ''Unexpected token'')
   \<and> \<not> includes_str ''This is not valid JSON'' ''NO_TEXT_FOUND''
   \<and> analyzeImage plain_env ''https://example.com/image.jpg'' [] =
       (\<lparr> a_text = JStr ''This is not valid JSON'', a_isEnglish = True \<rparr>,
        [Create (vision_request ''https://example.com/image.jpg''), Detect ''This is not valid JSON''])
   \<and> create silent_env [] (vision_request ''https://example.com/image.jpg'') = reply None
   \<and> JSON_parse silent_env default_reply = Inr (JObj [(''text'', JStr []), (''isEnglish'', JBool True)])
   \<and> analyzeImage silent_env ''https://example.com/image.jpg'' [] =
       (\<lparr> a_text = JStr [], a_isEnglish = True \<rparr>,
        [] @ [Create (vision_request ''https://example.com/image.jpg'')])"
proof -
  have c: "create plain_env [] (vision_request ''https://example.com/image.jpg'')
     = Inr \<lparr> choices = [\<lparr> message = \<lparr> content = Some ''This is not valid JSON'' \<rparr> \<rparr>] \<rparr>"
    by (simp add: plain_env_def reply_def)
  have ch: "choices \<lparr> choices = [\<lparr> message = \<lparr> content = Some ''This is not valid JSON'' \<rparr> \<rparr>] \<rparr>
     = \<lparr> message = \<lparr> content = Some ''This is not valid JSON'' \<rparr> \<rparr> # []"
    by simp
  have t: "trim plain_env ''This is not valid JSON'' = ''This is not valid JSON''"
    by (simp add: plain_env_def sample_defs)
  have p: "JSON_parse plain_env ''This is not valid JSON'' = Inl (SyntaxError ''Unexpected token'')"
    by (simp add: plain_env_def sample_defs)
  have n: "\<not> includes_str ''This is not valid JSON'' ''NO_TEXT_FOUND''"
    by simp
  have i: "isEnglish plain_env ''This is not valid JSON'' [Create (vision_request ''https://example.com/image.jpg'')]
     = (True, [Create (vision_request ''https://example.com/image.jpg''), Detect ''This is not valid JSON''])"
    by (simp add: plain_env_def service_defs)
  have c': "create silent_env [] (vision_request ''https://example.com/image.jpg'')
     = Inr \<lparr> choices = [\<lparr> message = \<lparr> content = None \<rparr> \<rparr>] \<rparr>"
    by (simp add: silent_env_def reply_def)
  have ch': "choices \<lparr> choices = [\<lparr> message = \<lparr> content = None \<rparr> \<rparr>] \<rparr>
     = \<lparr> message = \<lparr> content = None \<rparr> \<rparr> # []"
    by simp
  have p': "JSON_parse silent_env default_reply
     = Inr (JObj [(''text'', JStr []), (''isEnglish'', JBool True)])"
    by (simp add: silent_env_def default_reply_def sample_defs)
  from analyzeImage_unparseable
         [OF c ch, of "''This is not valid JSON''" "SyntaxError ''Unexpected token''"] t p n i
  have "analyzeImage plain_env ''https://example.com/image.jpg'' [] =
       (\<lparr> a_text = JStr ''This is not valid JSON'', a_isEnglish = True \<rparr>,
        [Create (vision_request ''https://example.com/image.jpg''), Detect ''This is not valid JSON''])"
    by simp
  moreover from analyzeImage_unparseable [OF c' ch'] p'
  have "analyzeImage silent_env ''https://example.com/image.jpg'' [] =
       (\<lparr> a_text = JStr [], a_isEnglish = True \<rparr>,
        [] @ [Create (vision_request ''https://example.com/image.jpg'')])"
    by simp
  ultimately show ?thesis
    using c t p n c' p' by (simp add: reply_def)
qed

text \<open>
  C9, as the specification states it, fails on a reply that is valid JSON of another shape.
  The reply \<^verbatim>\<open>"Bonjour le monde"\<close>, a JSON string, is not the expected structure, is not
  empty and does not contain \<open>NO_TEXT_FOUND\<close>; \<open>analyzeImage\<close> returns the empty text and
  true, and the classifier is not asked.
\<close>

theorem analyzeImage_json_string_counterexample:
  \<open>JSON_parse quoted_env (trim quoted_env ''"Bonjour le monde"'') = Inr (JStr ''Bonjour le monde'')
   \<and> \<not> expected_structure (JStr ''Bonjour le monde'')
   \<and> trim quoted_env ''"Bonjour le monde"'' \<noteq> []
   \<and> \<not> includes_str (trim quoted_env ''"Bonjour le monde"'') ''NO_TEXT_FOUND''
   \<and> analyzeImage quoted_env ''https://example.com/image.jpg'' [] =
       (\<lparr> a_text = JStr [], a_isEnglish = True \<rparr>,
        [Create (vision_request ''https://example.com/image.jpg'')])\<close>
  by (simp add: quoted_env_def expected_structure_def service_defs sample_defs)

subsection \<open>The dispatch policy of the handler\<close>

text \<open>
  C6. A post that carries a text and no photo: the handler sends a reply if and only if the
  text is not empty and \<open>isEnglish\<close> returns false on it. A post that carries a photo and
  no text, whose file path is found: the handler sends a reply if and only if the text
  returned by \<open>analyzeImage\<close> is truthy and the classification is false. In both cases
  the reply is the one message \<open>Translation: \<close>, the translation, a line feed, a second
  line feed, \<open>Please, refrain from usage of any language except English\<close>, sent to the
  chat of the post with the post's message id as \<^verbatim>\<open>reply_to_message_id\<close>; otherwise
  nothing is sent and no translation request is made. When the file path of the photo is
  not found, or the post has neither text nor photo, nothing is sent either.
\<close>

theorem dispatch_policy:
  "(post_text msg = Some t \<and> post_photo msg = None \<longrightarrow>
      filter is_reply (handler_events env msg tr) =
        (if t \<noteq> [] \<and> \<not> fst (isEnglish env t tr)
         then [SendMessage (chat_id msg)
                 (''Translation: '' @ fst (translateText env (JStr t) (snd (isEnglish env t tr))) @
                  ''\<newline>\<newline>Please, refrain from usage of any language except English'')
                 (message_id msg)]
         else [])
      \<and> (filter is_translation (handler_events env msg tr) = []
           \<longleftrightarrow> \<not> (t \<noteq> [] \<and> \<not> fst (isEnglish env t tr))))
   \<and> (post_text msg = None \<and> post_photo msg = Some photos \<and> photos \<noteq> [] \<and>
      getFile env tr (file_id (last photos)) = Inr (Some path) \<and> path \<noteq> [] \<and>
      analyzeImage env (''https://api.telegram.org/file/bot'' @ TELEGRAM_BOT_TOKEN env @ ''/'' @ path)
        (tr @ [GetFile (file_id (last photos))]) = (r, tr') \<longrightarrow>
      filter is_reply (handler_events env msg tr) =
        (if truthy (a_text r) \<and> \<not> a_isEnglish r
         then [SendMessage (chat_id msg)
                 (''Translation: '' @ fst (translateText env (a_text r) tr') @
                  ''\<newline>\<newline>Please, refrain from usage of any language except English'')
                 (message_id msg)]
         else [])
      \<and> (filter is_translation (handler_events env msg tr) = []
           \<longleftrightarrow> \<not> (truthy (a_text r) \<and> \<not> a_isEnglish r)))
   \<and> (post_text msg = None \<and> post_photo msg = Some photos \<and> photos \<noteq> [] \<and>
      (getFile env tr (file_id (last photos)) = Inl e \<or>
       getFile env tr (file_id (last photos)) = Inr None \<or>
       getFile env tr (file_id (last photos)) = Inr (Some [])) \<longrightarrow>
      handler_events env msg tr = [GetFile (file_id (last photos))])
   \<and> (post_text msg = None \<and> post_photo msg = None \<longrightarrow> handler_events env msg tr = [])"
proof (intro conjI impI)
  assume a: "post_text msg = Some t \<and> post_photo msg = None"
  obtain evs where evs: "snd (isEnglish env t tr) = tr @ evs" "filter is_reply evs = []"
      "filter is_translation evs = []"
    using isEnglish_quiet [of env t tr] by blast
  have tr: "handler_events env msg tr = drop (length tr) (snd (handle_text env msg tr))"
    using a by (simp add: handler_events_def channel_post_text_only)
  show "filter is_reply (handler_events env msg tr) =
        (if t \<noteq> [] \<and> \<not> fst (isEnglish env t tr)
         then [SendMessage (chat_id msg)
                 (''Translation: '' @ fst (translateText env (JStr t) (snd (isEnglish env t tr))) @
                  ''\<newline>\<newline>Please, refrain from usage of any language except English'')
                 (message_id msg)]
         else [])"
    using a evs by (simp add: tr handle_text_trace reply_template_def)
  show "filter is_translation (handler_events env msg tr) = []
           \<longleftrightarrow> \<not> (t \<noteq> [] \<and> \<not> fst (isEnglish env t tr))"
    using a evs by (simp add: tr handle_text_trace)
next
  assume a: "post_text msg = None \<and> post_photo msg = Some photos \<and> photos \<noteq> [] \<and>
      getFile env tr (file_id (last photos)) = Inr (Some path) \<and> path \<noteq> [] \<and>
      analyzeImage env (''https://api.telegram.org/file/bot'' @ TELEGRAM_BOT_TOKEN env @ ''/'' @ path)
        (tr @ [GetFile (file_id (last photos))]) = (r, tr')"
  let ?tr1 = "tr @ [GetFile (file_id (last photos))]"
  obtain evs where
    "snd (analyzeImage env (''https://api.telegram.org/file/bot'' @ TELEGRAM_BOT_TOKEN env @ ''/'' @ path) ?tr1)
       = ?tr1 @ evs"
    and q: "filter is_reply evs = []" "filter is_translation evs = []"
    using analyzeImage_quiet by blast
  with a have tr': "tr' = tr @ GetFile (file_id (last photos)) # evs" by simp
  have tr: "handler_events env msg tr = drop (length tr) (snd (handle_photo env msg tr))"
    using a by (simp add: handler_events_def channel_post_photo_only)
  have hp: "snd (handle_photo env msg tr) =
     (if truthy (a_text r) \<and> \<not> a_isEnglish r
      then tr' @
        [Create (translate_request env (a_text r)),
         SendMessage (chat_id msg) (reply_template (fst (translateText env (a_text r) tr')))
           (message_id msg)]
      else tr')"
    using a handle_photo_trace [of msg photos env tr path r tr'] by blast
  show "filter is_reply (handler_events env msg tr) =
        (if truthy (a_text r) \<and> \<not> a_isEnglish r
         then [SendMessage (chat_id msg)
                 (''Translation: '' @ fst (translateText env (a_text r) tr') @
                  ''\<newline>\<newline>Please, refrain from usage of any language except English'')
                 (message_id msg)]
         else [])"
    using q by (simp add: tr hp tr' reply_template_def)
  show "filter is_translation (handler_events env msg tr) = []
           \<longleftrightarrow> \<not> (truthy (a_text r) \<and> \<not> a_isEnglish r)"
    using q by (simp add: tr hp tr')
next
  assume a: "post_text msg = None \<and> post_photo msg = Some photos \<and> photos \<noteq> [] \<and>
      (getFile env tr (file_id (last photos)) = Inl e \<or>
       getFile env tr (file_id (last photos)) = Inr None \<or>
       getFile env tr (file_id (last photos)) = Inr (Some []))"
  then have "snd (handle_photo env msg tr) = tr @ [GetFile (file_id (last photos))]"
    using handle_photo_no_file [of msg photos env tr e] by blast
  with a show "handler_events env msg tr = [GetFile (file_id (last photos))]"
    by (simp add: handler_events_def channel_post_photo_only)
next
  assume "post_text msg = None \<and> post_photo msg = None"
  then show "handler_events env msg tr = []"
    by (simp add: handler_events_def channel_post_def handle_text_def handle_photo_def)
qed

theorem dispatch_policy_witness:
  "post_text text_post = Some ''Bonjour le monde'' \<and> post_photo text_post = None
   \<and> \<not> fst (isEnglish french_env ''Bonjour le monde'' [])
   \<and> filter is_reply (handler_events french_env text_post []) =
       [SendMessage 456
          ''Translation: Hello world\<newline>\<newline>Please, refrain from usage of any language except English''
          123]
   \<and> filter is_translation (handler_events french_env text_post []) \<noteq> []
   \<and> post_text photo_post = None
   \<and> getFile french_env [] ''large_photo_id'' = Inr (Some ''photos/large_photo_id'')
   \<and> filter is_reply (handler_events french_env photo_post []) =
       [SendMessage 456
          ''Translation: Hello world\<newline>\<newline>Please, refrain from usage of any language except English''
          123]
   \<and> filter is_translation (handler_events french_env photo_post []) \<noteq> []"
proof -
  have p: "post_text text_post = Some ''Bonjour le monde'' \<and> post_photo text_post = None"
    by (simp add: text_post_def)
  have f: "\<not> fst (isEnglish french_env ''Bonjour le monde'' [])"
    by (simp add: french_isEnglish)
  have q: "post_text photo_post = None \<and>
           post_photo photo_post = Some [\<lparr> file_id = ''small_photo_id'' \<rparr>, \<lparr> file_id = ''large_photo_id'' \<rparr>] \<and>
           [\<lparr> file_id = ''small_photo_id'' \<rparr>, \<lparr> file_id = ''large_photo_id'' \<rparr>] \<noteq> [] \<and>
           getFile french_env [] (file_id (last [\<lparr> file_id = ''small_photo_id'' \<rparr>, \<lparr> file_id = ''large_photo_id'' \<rparr>]))
             = Inr (Some ''photos/large_photo_id'') \<and>
           ''photos/large_photo_id'' \<noteq> [] \<and>
           analyzeImage french_env
             (''https://api.telegram.org/file/bot'' @ TELEGRAM_BOT_TOKEN french_env @ ''/'' @ ''photos/large_photo_id'')
             ([] @ [GetFile (file_id (last [\<lparr> file_id = ''small_photo_id'' \<rparr>, \<lparr> file_id = ''large_photo_id'' \<rparr>]))])
             = (\<lparr> a_text = JStr ''Bonjour'', a_isEnglish = False \<rparr>,
                ([] @ [GetFile (file_id (last [\<lparr> file_id = ''small_photo_id'' \<rparr>, \<lparr> file_id = ''large_photo_id'' \<rparr>]))])
                  @ [Create (vision_request (''https://api.telegram.org/file/bot'' @ TELEGRAM_BOT_TOKEN french_env @ ''/'' @ ''photos/large_photo_id''))])"
    by (simp add: photo_post_def french_analyzeImage) (simp add: french_env_def)
  have g: "getFile french_env [] ''large_photo_id'' = Inr (Some ''photos/large_photo_id'')"
    by (simp add: french_env_def)
  from dispatch_policy [of text_post "''Bonjour le monde''" french_env "[]"] p f
  have "filter is_reply (handler_events french_env text_post []) =
       [SendMessage 456
          ''Translation: Hello world\<newline>\<newline>Please, refrain from usage of any language except English''
          123]"
    and "filter is_translation (handler_events french_env text_post []) \<noteq> []"
    by (simp_all add: french_translateText text_post_def)
  moreover from dispatch_policy
    [of photo_post _ french_env "[]"
        "[\<lparr> file_id = ''small_photo_id'' \<rparr>, \<lparr> file_id = ''large_photo_id'' \<rparr>]"
        "''photos/large_photo_id''" "\<lparr> a_text = JStr ''Bonjour'', a_isEnglish = False \<rparr>"] q
  have "filter is_reply (handler_events french_env photo_post []) =
       [SendMessage 456
          ''Translation: Hello world\<newline>\<newline>Please, refrain from usage of any language except English''
          123]"
    and "filter is_translation (handler_events french_env photo_post []) \<noteq> []"
    by (simp_all add: french_translateText photo_post_def)
  ultimately show ?thesis
    using p f g by (simp add: photo_post_def)
qed

end
